theory Spec2Isabelle
  imports Complex_Main "HOL-Library.AList"
begin

section \<open>Material utilities of zpy (src/zpy/material.py)\<close>

text \<open>
  The module manipulates materials of a host scene (Blender's \<^verbatim>\<open>bpy\<close>). The host's
  documents are modelled as explicit state: the scene record holds the render engine, the
  material collection \<^verbatim>\<open>bpy.data.materials\<close> and the module global
  \<^verbatim>\<open>_SAVED_MATERIALS\<close>. Every function that mutates returns the new scene together
  with the exception it raised, if any, so the state at the moment of a raise is visible.

  Python floats are modelled as \<^typ>\<open>real\<close>. The concrete inputs used below are dyadic
  fractions whose sums are exact in binary floating point as well.
\<close>

subsection \<open>Exceptions\<close>

datatype error =
    ValueError string
  | AssertionError string
  | KeyError string
  | AttributeError
  | TypeError
  | ReferenceError

subsection \<open>Host data: nodes, node trees, materials\<close>

type_synonym rgba = "real \<times> real \<times> real \<times> real"

text \<open>The triple (roughness, metallic, specular) returned by \<^verbatim>\<open>get_mat_props\<close>.\<close>

type_synonym props = "real \<times> real \<times> real"

text \<open>
  A shader node: its name, the type identifier it was created from, the
  \<^verbatim>\<open>layer_name\<close> attribute, and the \<^verbatim>\<open>default_value\<close> of its float and colour input
  sockets, looked up by socket name (\<^verbatim>\<open>node.inputs['Roughness']\<close>).
\<close>

record node =
  node_name :: string
  bl_idname :: string
  layer_name :: string
  inputs :: "string \<rightharpoonup> real"
  color_inputs :: "string \<rightharpoonup> rgba"

text \<open>A socket handed to \<^verbatim>\<open>links.new\<close>: the node's identity and the index or key used.\<close>

datatype sock_key = ByIndex nat | ByName string

datatype socket = InputSocket nat sock_key | OutputSocket nat sock_key

text \<open>
  A node tree: the ordered node collection, each node under a stable identity (the
  reference Python holds), and the links as pairs of sockets in the order passed.
\<close>

record node_tree =
  nodes :: "(nat \<times> node) list"
  links :: "(socket \<times> socket) list"

record material =
  use_nodes :: bool
  mat_node_tree :: "node_tree option"

text \<open>
  The scene. Materials are identified by their unique name, so a reference to a material
  object is the name it is stored under. \<^verbatim>\<open>saved\<close> is the dictionary
  \<^verbatim>\<open>_SAVED_MATERIALS\<close>, kept as an association list in insertion order.
\<close>

record scene =
  engine :: string
  materials :: "string \<rightharpoonup> material"
  saved :: "(string \<times> props) list"

text \<open>
  An argument of type \<^verbatim>\<open>Union[str, bpy.types.Material]\<close>: \<^verbatim>\<open>None\<close>, a name string, or
  a reference to a material object.
\<close>

datatype mat_arg = MatNone | MatName string | MatRef string

subsection \<open>Host primitives used by the snapshot store\<close>

text \<open>\<^verbatim>\<open>bpy.data.materials.get(name)\<close>: the material of that name, or \<^verbatim>\<open>None\<close>.\<close>

definition materials_get :: "scene \<Rightarrow> string \<Rightarrow> string option" where
  "materials_get s n = (case materials s n of None \<Rightarrow> None | Some _ \<Rightarrow> Some n)"

text \<open>
  Attribute access on a material reference. A reference whose material is no longer in
  the collection raises \<^verbatim>\<open>ReferenceError\<close> in the host.
\<close>

definition deref :: "scene \<Rightarrow> string \<Rightarrow> error + material" where
  "deref s m = (case materials s m of None \<Rightarrow> Inl ReferenceError | Some mt \<Rightarrow> Inr mt)"

text \<open>
  \<^verbatim>\<open>mat.name\<close>: a string and \<^verbatim>\<open>None\<close> have no attribute \<^verbatim>\<open>name\<close>.
\<close>

definition name_attr :: "scene \<Rightarrow> mat_arg \<Rightarrow> error + string" where
  "name_attr s mat =
     (case mat of
        MatNone \<Rightarrow> Inl AttributeError
      | MatName _ \<Rightarrow> Inl AttributeError
      | MatRef m \<Rightarrow> (case deref s m of Inl e \<Rightarrow> Inl e | Inr _ \<Rightarrow> Inr m))"

text \<open>\<^verbatim>\<open>mat.node_tree.nodes\<close>: the tree is \<^verbatim>\<open>None\<close> until nodes are first enabled.\<close>

definition tree_of :: "scene \<Rightarrow> string \<Rightarrow> error + node_tree" where
  "tree_of s m =
     (case deref s m of
        Inl e \<Rightarrow> Inl e
      | Inr mt \<Rightarrow> (case mat_node_tree mt of None \<Rightarrow> Inl AttributeError | Some t \<Rightarrow> Inr t))"

text \<open>\<^verbatim>\<open>nodes.get(name)\<close>: the first node of that name with its identity, or \<^verbatim>\<open>None\<close>.\<close>

fun nodes_get :: "(nat \<times> node) list \<Rightarrow> string \<Rightarrow> (nat \<times> node) option" where
  "nodes_get [] n = None"
| "nodes_get ((i, nd) # ns) n = (if node_name nd = n then Some (i, nd) else nodes_get ns n)"

text \<open>Writing through a node reference: the node of identity \<open>i\<close> is replaced.\<close>

definition put_node :: "scene \<Rightarrow> string \<Rightarrow> nat \<Rightarrow> node \<Rightarrow> scene" where
  "put_node s m i nd =
     (case materials s m of
        None \<Rightarrow> s
      | Some mt \<Rightarrow>
          (case mat_node_tree mt of
             None \<Rightarrow> s
           | Some t \<Rightarrow>
               s\<lparr>materials := (materials s)(m \<mapsto>
                    mt\<lparr>mat_node_tree :=
                      Some (t\<lparr>nodes := map (\<lambda>(j, x). if j = i then (j, nd) else (j, x)) (nodes t)\<rparr>)\<rparr>)\<rparr>))"

subsection \<open>verify\<close>

text \<open>
  The rendering of \<^verbatim>\<open>{mat}\<close> in an f-string: \<^verbatim>\<open>None\<close> prints as \<^verbatim>\<open>None\<close>, a material
  object prints its host representation.
\<close>

definition fmt_mat :: "string option \<Rightarrow> string" where
  "fmt_mat mat =
     (case mat of None \<Rightarrow> ''None'' | Some m \<Rightarrow> ''<bpy_struct, Material(\"'' @ m @ ''\")>'')"

text \<open>
  \<^verbatim>\<open>verify(mat, check_none=True)\<close>. The parameter \<^verbatim>\<open>mat\<close> is rebound to the result of
  the lookup before the message is formatted.
\<close>

definition verify :: "scene \<Rightarrow> mat_arg \<Rightarrow> bool \<Rightarrow> error + string option" where
  "verify s mat check_none =
     (let mat1 = (case mat of
                    MatName n \<Rightarrow> materials_get s n
                  | MatRef m \<Rightarrow> Some m
                  | MatNone \<Rightarrow> None)
      in if check_none \<and> mat1 = None
         then Inl (ValueError (''Could not find material '' @ fmt_mat mat1 @ ''.''))
         else Inr mat1)"

subsection \<open>Reading and writing the tracked properties\<close>

definition get_mat_props :: "scene \<Rightarrow> mat_arg \<Rightarrow> error + props" where
  "get_mat_props s mat =
     (case verify s mat True of
        Inl e \<Rightarrow> Inl e
      | Inr None \<Rightarrow> Inl AttributeError
      | Inr (Some m) \<Rightarrow>
          (case tree_of s m of
             Inl e \<Rightarrow> Inl e
           | Inr t \<Rightarrow>
               (case nodes_get (nodes t) ''Principled BSDF'' of
                  None \<Rightarrow> Inr (0, 0, 0)
                | Some (i, bsdf_node) \<Rightarrow>
                    (case inputs bsdf_node ''Roughness'' of
                       None \<Rightarrow> Inl (KeyError ''Roughness'')
                     | Some r \<Rightarrow>
                         (case inputs bsdf_node ''Metallic'' of
                            None \<Rightarrow> Inl (KeyError ''Metallic'')
                          | Some mt \<Rightarrow>
                              (case inputs bsdf_node ''Specular'' of
                                 None \<Rightarrow> Inl (KeyError ''Specular'')
                               | Some sp \<Rightarrow> Inr (r, mt, sp)))))))"

text \<open>\<^verbatim>\<open>node.inputs[k].default_value += x\<close>.\<close>

definition add_default_value :: "string \<Rightarrow> real \<Rightarrow> node \<Rightarrow> error + node" where
  "add_default_value k x nd =
     (case inputs nd k of
        None \<Rightarrow> Inl (KeyError k)
      | Some v \<Rightarrow> Inr (nd\<lparr>inputs := (inputs nd)(k \<mapsto> v + x)\<rparr>))"

text \<open>
  \<^verbatim>\<open>set_mat_props(mat, prop_tuple)\<close>: the three augmented assignments run in order, each
  written through to the scene before the next one can raise.
\<close>

definition set_mat_props :: "scene \<Rightarrow> mat_arg \<Rightarrow> props \<Rightarrow> error option \<times> scene" where
  "set_mat_props s mat prop_tuple =
     (case verify s mat True of
        Inl e \<Rightarrow> (Some e, s)
      | Inr None \<Rightarrow> (Some AttributeError, s)
      | Inr (Some m) \<Rightarrow>
          (case tree_of s m of
             Inl e \<Rightarrow> (Some e, s)
           | Inr t \<Rightarrow>
               (case nodes_get (nodes t) ''Principled BSDF'' of
                  None \<Rightarrow> (None, s)
                | Some (i, bsdf_node) \<Rightarrow>
                    (case add_default_value ''Roughness'' (fst prop_tuple) bsdf_node of
                       Inl e \<Rightarrow> (Some e, s)
                     | Inr n1 \<Rightarrow>
                         (case add_default_value ''Metallic'' (fst (snd prop_tuple)) n1 of
                            Inl e \<Rightarrow> (Some e, put_node s m i n1)
                          | Inr n2 \<Rightarrow>
                              (case add_default_value ''Specular'' (snd (snd prop_tuple)) n2 of
                                 Inl e \<Rightarrow> (Some e, put_node s m i n2)
                               | Inr n3 \<Rightarrow> (None, put_node s m i n3)))))))"

subsection \<open>The snapshot store\<close>

definition save_material_props :: "scene \<Rightarrow> mat_arg \<Rightarrow> error option \<times> scene" where
  "save_material_props s mat =
     (case name_attr s mat of
        Inl e \<Rightarrow> (Some e, s)
      | Inr n \<Rightarrow>
          (case get_mat_props s mat of
             Inl e \<Rightarrow> (Some e, s)
           | Inr p \<Rightarrow> (None, s\<lparr>saved := AList.update n p (saved s)\<rparr>)))"

definition restore_material_props :: "scene \<Rightarrow> mat_arg \<Rightarrow> error option \<times> scene" where
  "restore_material_props s mat =
     (case name_attr s mat of
        Inl e \<Rightarrow> (Some e, s)
      | Inr n \<Rightarrow>
          (case map_of (saved s) n of
             None \<Rightarrow> (Some (KeyError n), s)
           | Some p \<Rightarrow> set_mat_props s mat p))"

text \<open>
  \<^verbatim>\<open>restore_all_material_props()\<close>: the loop over the items of the dictionary, each
  restored by name; an exception ends the loop.
\<close>

fun restore_items :: "scene \<Rightarrow> (string \<times> props) list \<Rightarrow> error option \<times> scene" where
  "restore_items s [] = (None, s)"
| "restore_items s ((mat_name, mat_props) # rest) =
     (case set_mat_props s (MatName mat_name) mat_props of
        (Some e, s1) \<Rightarrow> (Some e, s1)
      | (None, s1) \<Rightarrow> restore_items s1 rest)"

definition restore_all_material_props :: "scene \<Rightarrow> error option \<times> scene" where
  "restore_all_material_props s = restore_items s (saved s)"

subsection \<open>jitter\<close>

text \<open>
  \<^verbatim>\<open>random.gauss(mu, sigma)\<close> returns \<open>mu + z * sigma\<close> for a standard normal deviate
  \<open>z\<close> drawn from the generator. The three deviates a call of \<^verbatim>\<open>jitter\<close> draws are a
  parameter of the model.
\<close>

definition gauss :: "real \<Rightarrow> real \<Rightarrow> real \<Rightarrow> real" where
  "gauss mu sigma z = mu + z * sigma"

definition jitter :: "scene \<Rightarrow> mat_arg \<Rightarrow> real \<Rightarrow> bool \<Rightarrow> real \<times> real \<times> real \<Rightarrow> error option \<times> scene" where
  "jitter s mat std save_first_time z =
     (case verify s mat True of
        Inl e \<Rightarrow> (Some e, s)
      | Inr None \<Rightarrow> (Some AttributeError, s)
      | Inr (Some m) \<Rightarrow>
          (case (if save_first_time
                 then (case name_attr s (MatRef m) of
                         Inl e \<Rightarrow> (Some e, s)
                       | Inr n \<Rightarrow>
                           (if map_of (saved s) n = None
                            then save_material_props s (MatRef m)
                            else restore_material_props s (MatRef m)))
                 else (None, s)) of
             (Some e, s1) \<Rightarrow> (Some e, s1)
           | (None, s1) \<Rightarrow>
               (case name_attr s1 (MatRef m) of
                  Inl e \<Rightarrow> (Some e, s1)
                | Inr _ \<Rightarrow>
                    (case get_mat_props s1 (MatRef m) of
                       Inl e \<Rightarrow> (Some e, s1)
                     | Inr (p0, p1, p2) \<Rightarrow>
                         set_mat_props s1 (MatRef m)
                           (p0 + gauss 0 std (fst z),
                            p1 + gauss 0 std (fst (snd z)),
                            p2 + gauss 0 std (snd (snd z)))))))"

subsection \<open>Host primitives used by the constructors\<close>

text \<open>
  The host names a new node after its type and makes the name unique in its tree by a
  three-digit suffix. Only the node types this module creates or relies on are listed,
  with the input sockets the module reads or writes.
\<close>

definition default_label :: "string \<Rightarrow> string" where
  "default_label idname =
     (if idname = ''ShaderNodeBsdfPrincipled'' then ''Principled BSDF''
      else if idname = ''ShaderNodeOutputMaterial'' then ''Material Output''
      else if idname = ''ShaderNodeBsdfDiffuse'' then ''Diffuse BSDF''
      else if idname = ''ShaderNodeVertexColor'' then ''Vertex Color''
      else if idname = ''ShaderNodeOutputAOV'' then ''AOV Output''
      else idname)"

definition default_inputs :: "string \<Rightarrow> (string \<rightharpoonup> real)" where
  "default_inputs idname =
     (if idname = ''ShaderNodeBsdfPrincipled''
      then [''Roughness'' \<mapsto> 1/2, ''Metallic'' \<mapsto> 0, ''Specular'' \<mapsto> 1/2]
      else if idname = ''ShaderNodeBsdfDiffuse'' then [''Roughness'' \<mapsto> 0]
      else Map.empty)"

definition default_color_inputs :: "string \<Rightarrow> (string \<rightharpoonup> rgba)" where
  "default_color_inputs idname =
     (if idname = ''ShaderNodeBsdfPrincipled'' then [''Base Color'' \<mapsto> (4/5, 4/5, 4/5, 1)]
      else if idname = ''ShaderNodeBsdfDiffuse'' then [''Color'' \<mapsto> (4/5, 4/5, 4/5, 1)]
      else if idname = ''ShaderNodeOutputAOV'' then [''Color'' \<mapsto> (0, 0, 0, 1)]
      else Map.empty)"

definition numbered :: "string \<Rightarrow> nat \<Rightarrow> string" where
  "numbered base k =
     base @ ''.'' @ [''0123456789'' ! (k div 100 mod 10), ''0123456789'' ! (k div 10 mod 10),
                    ''0123456789'' ! (k mod 10)]"

definition unique_name :: "string \<Rightarrow> string list \<Rightarrow> string" where
  "unique_name base used =
     (case find (\<lambda>c. c \<notin> set used) (base # map (numbered base) [1 ..< Suc (Suc (length used))]) of
        Some c \<Rightarrow> c
      | None \<Rightarrow> base)"

definition new_node :: "string \<Rightarrow> string list \<Rightarrow> node" where
  "new_node idname used =
     \<lparr>node_name = unique_name (default_label idname) used, bl_idname = idname, layer_name = [],
      inputs = default_inputs idname, color_inputs = default_color_inputs idname\<rparr>"

definition fresh_id :: "(nat \<times> node) list \<Rightarrow> nat" where
  "fresh_id ns = Suc (fold max (map fst ns) 0)"

text \<open>\<^verbatim>\<open>nodes.new(type)\<close>: the new node, and the tree with the node appended.\<close>

definition nodes_new :: "node_tree \<Rightarrow> string \<Rightarrow> (nat \<times> node) \<times> node_tree" where
  "nodes_new t idname =
     (let i = fresh_id (nodes t);
          nd = new_node idname (map (\<lambda>(j, x). node_name x) (nodes t))
      in ((i, nd), t\<lparr>nodes := nodes t @ [(i, nd)]\<rparr>))"

fun socket_node :: "socket \<Rightarrow> nat" where
  "socket_node (InputSocket i k) = i"
| "socket_node (OutputSocket i k) = i"

text \<open>
  \<^verbatim>\<open>nodes.remove(node)\<close>: the argument is a required node; the host rejects \<^verbatim>\<open>None\<close>
  with a \<^verbatim>\<open>TypeError\<close>. Removing a node removes the links attached to it.
\<close>

definition nodes_remove :: "node_tree \<Rightarrow> (nat \<times> node) option \<Rightarrow> error + node_tree" where
  "nodes_remove t nd =
     (case nd of
        None \<Rightarrow> Inl TypeError
      | Some (i, _) \<Rightarrow>
          Inr (t\<lparr>nodes := filter (\<lambda>(j, x). j \<noteq> i) (nodes t),
                 links := filter (\<lambda>(a, b). socket_node a \<noteq> i \<and> socket_node b \<noteq> i) (links t)\<rparr>))"

text \<open>\<^verbatim>\<open>links.new(a, b)\<close>: the pair of sockets is recorded as passed.\<close>

definition links_new :: "node_tree \<Rightarrow> socket \<Rightarrow> socket \<Rightarrow> node_tree" where
  "links_new t a b = t\<lparr>links := links t @ [(a, b)]\<rparr>"

definition update_node :: "node_tree \<Rightarrow> nat \<Rightarrow> (node \<Rightarrow> node) \<Rightarrow> node_tree" where
  "update_node t i f = t\<lparr>nodes := map (\<lambda>(j, x). if j = i then (j, f x) else (j, x)) (nodes t)\<rparr>"

definition put_tree :: "scene \<Rightarrow> string \<Rightarrow> node_tree \<Rightarrow> scene" where
  "put_tree s m t =
     (case materials s m of
        None \<Rightarrow> s
      | Some mt \<Rightarrow> s\<lparr>materials := (materials s)(m \<mapsto> mt\<lparr>mat_node_tree := Some t\<rparr>)\<rparr>)"

text \<open>
  The tree the host gives a material when nodes are first enabled: a principled shader
  linked to the material output.
\<close>

definition default_tree :: node_tree where
  "default_tree =
     \<lparr>nodes = [(0, new_node ''ShaderNodeBsdfPrincipled'' []),
               (1, new_node ''ShaderNodeOutputMaterial'' [])],
      links = [(OutputSocket 0 (ByName ''BSDF''), InputSocket 1 (ByName ''Surface''))]\<rparr>"

text \<open>\<^verbatim>\<open>mat.use_nodes = True\<close>.\<close>

definition enable_nodes :: "material \<Rightarrow> material" where
  "enable_nodes mt =
     mt\<lparr>use_nodes := True,
        mat_node_tree := (case mat_node_tree mt of None \<Rightarrow> Some default_tree | Some t \<Rightarrow> Some t)\<rparr>"

text \<open>
  \<^verbatim>\<open>bpy.data.materials.new(name=name)\<close>, called by this module only when no material of
  that name exists: a material without a node tree, stored under the name.
\<close>

definition materials_new :: "scene \<Rightarrow> string \<Rightarrow> string \<times> scene" where
  "materials_new s n =
     (n, s\<lparr>materials := (materials s)(n \<mapsto> \<lparr>use_nodes = False, mat_node_tree = None\<rparr>)\<rparr>)"

subsection \<open>make_mat_from_color\<close>

text \<open>
  \<^verbatim>\<open>make_mat_from_color(color, name)\<close>. \<open>str\<close> is Python's \<^verbatim>\<open>str\<close> on the colour
  tuple, used for the default name. Each mutation is written to the scene before the next
  statement can raise.
\<close>

definition make_mat_from_color ::
  "(real \<times> real \<times> real \<Rightarrow> string) \<Rightarrow> scene \<Rightarrow> real \<times> real \<times> real \<Rightarrow> string option
     \<Rightarrow> (error + string) \<times> scene" where
  "make_mat_from_color str s color name =
     (let name1 = (case name of None \<Rightarrow> str color | Some n \<Rightarrow> n);
          (mat, s1) = (case materials_get s name1 of
                         None \<Rightarrow> materials_new s name1
                       | Some m \<Rightarrow> (m, s))
      in case deref s1 mat of
           Inl e \<Rightarrow> (Inl e, s1)
         | Inr mt \<Rightarrow>
             (let s2 = s1\<lparr>materials := (materials s1)(mat \<mapsto> enable_nodes mt)\<rparr>
              in case tree_of s2 mat of
                   Inl e \<Rightarrow> (Inl e, s2)
                 | Inr t \<Rightarrow>
                     (let bsdf_node = nodes_get (nodes t) ''Principled BSDF'';
                          out_node = nodes_get (nodes t) ''Material Output''
                      in case nodes_remove t bsdf_node of
                           Inl e \<Rightarrow> (Inl e, s2)
                         | Inr t1 \<Rightarrow>
                             (let ((i, nd), t2) = nodes_new t1 ''ShaderNodeBsdfDiffuse''
                              in case color_inputs nd ''Color'' of
                                   None \<Rightarrow> (Inl (KeyError ''Color''), put_tree s2 mat t2)
                                 | Some _ \<Rightarrow>
                                     (let t3 = update_node t2 i
                                            (\<lambda>x. x\<lparr>color_inputs := (color_inputs x)(''Color'' \<mapsto>
                                               (fst color, fst (snd color), snd (snd color), 1))\<rparr>)
                                      in case out_node of
                                           None \<Rightarrow> (Inl AttributeError, put_tree s2 mat t3)
                                         | Some (j, _) \<Rightarrow>
                                             (Inr mat,
                                              put_tree s2 mat
                                                (links_new t3 (InputSocket j (ByIndex 0))
                                                   (OutputSocket i (ByIndex 0)))))))))"

subsection \<open>Objects and set_mat\<close>

text \<open>
  An object of the scene: its name, the attribute \<^verbatim>\<open>active_material\<close> (absent, \<^verbatim>\<open>None\<close>
  or a material reference), the materials of its slots, and its children.
\<close>

datatype object =
  Object (obj_name: string) (active_material: "string option option")
    (material_slots: "string option list") (children: "object list")

datatype obj_arg = ObjName string | ObjRef object

text \<open>
  Modelled from the spec: \<^verbatim>\<open>zpy.objects.verify\<close> (module \<^verbatim>\<open>zpy/objects.py\<close> is not
  among the sources). It resolves an argument that is either a name string or a direct
  reference; a name that is not found raises a value error with the offending identifier.
  \<open>objs\<close> is the host's object collection \<^verbatim>\<open>bpy.data.objects\<close>.
\<close>

definition objects_verify :: "(string \<rightharpoonup> object) \<Rightarrow> obj_arg \<Rightarrow> error + object" where
  "objects_verify objs obj =
     (case obj of
        ObjRef ob \<Rightarrow> Inr ob
      | ObjName n \<Rightarrow>
          (case objs n of
             None \<Rightarrow> Inl (ValueError (''Could not find object '' @ n @ ''.''))
           | Some ob \<Rightarrow> Inr ob))"

text \<open>
  The body of \<^verbatim>\<open>set_mat\<close> on resolved arguments. The recursive calls
  \<^verbatim>\<open>set_mat(child, mat)\<close> pass direct references, which both \<^verbatim>\<open>verify\<close> functions
  return as they are, and leave \<^verbatim>\<open>recursive\<close> at its default \<^verbatim>\<open>True\<close>. An object
  without the attribute is left alone and its children are not visited.
\<close>

fun set_mat_resolved :: "string \<Rightarrow> bool \<Rightarrow> object \<Rightarrow> object" where
  "set_mat_resolved mat recursive (Object n am slots cs) =
     (case am of
        None \<Rightarrow> Object n am slots cs
      | Some _ \<Rightarrow>
          Object n (Some (Some mat)) slots
            (if recursive then map (set_mat_resolved mat True) cs else cs))"

text \<open>
  \<^verbatim>\<open>set_mat(obj, mat, recursive)\<close>: the result is the object after the call. The only
  statement that can raise after the two resolutions is the read of \<^verbatim>\<open>mat.name\<close> for
  the log message, which comes before the first assignment.
\<close>

definition set_mat ::
  "(string \<rightharpoonup> object) \<Rightarrow> scene \<Rightarrow> obj_arg \<Rightarrow> mat_arg \<Rightarrow> bool \<Rightarrow> error + object" where
  "set_mat objs s obj mat recursive =
     (case objects_verify objs obj of
        Inl e \<Rightarrow> Inl e
      | Inr ob \<Rightarrow>
          (case verify s mat True of
             Inl e \<Rightarrow> Inl e
           | Inr None \<Rightarrow> Inl AttributeError
           | Inr (Some m) \<Rightarrow>
               (case active_material ob of
                  None \<Rightarrow> Inr ob
                | Some _ \<Rightarrow>
                    (case name_attr s (MatRef m) of
                       Inl e \<Rightarrow> Inl e
                     | Inr _ \<Rightarrow> Inr (set_mat_resolved m recursive ob)))))"

subsection \<open>make_aov_material_output_node\<close>

definition valid_styles :: "string list" where
  "valid_styles = [''instance'', ''category'']"

text \<open>The loop that finds the last node whose name equals the style.\<close>

fun find_last_named :: "(nat \<times> node) list \<Rightarrow> string \<Rightarrow> (nat \<times> node) option \<Rightarrow> (nat \<times> node) option" where
  "find_last_named [] n acc = acc"
| "find_last_named ((i, nd) # ns) n acc =
     find_last_named ns n (if node_name nd = n then Some (i, nd) else acc)"

text \<open>The body of the loop over \<^verbatim>\<open>all_mats\<close> for one entry, which may be \<^verbatim>\<open>None\<close>.\<close>

definition aov_wire :: "scene \<Rightarrow> string \<Rightarrow> string option \<Rightarrow> error option \<times> scene" where
  "aov_wire s style mat =
     (case mat of
        None \<Rightarrow> (Some AttributeError, s)
      | Some m \<Rightarrow>
          (case deref s m of
             Inl e \<Rightarrow> (Some e, s)
           | Inr mt \<Rightarrow>
               (let s1 = (if \<not> use_nodes mt
                          then s\<lparr>materials := (materials s)(m \<mapsto> enable_nodes mt)\<rparr>
                          else s)
                in case tree_of s1 m of
                     Inl e \<Rightarrow> (Some e, s1)
                   | Inr t \<Rightarrow>
                       (let name1 = style @ '' Vertex Color'';
                            ((i, vc), t1) = (case nodes_get (nodes t) name1 of
                                               None \<Rightarrow> nodes_new t ''ShaderNodeVertexColor''
                                             | Some r \<Rightarrow> (r, t));
                            t2 = update_node t1 i (\<lambda>x. x\<lparr>layer_name := style, node_name := name1\<rparr>);
                            ((k, aov), t3) = (case find_last_named (nodes t2) style None of
                                                None \<Rightarrow> nodes_new t2 ''ShaderNodeOutputAOV''
                                              | Some r \<Rightarrow> (r, t2));
                            t4 = update_node t3 k (\<lambda>x. x\<lparr>node_name := style\<rparr>)
                        in (None,
                            put_tree s1 m
                              (links_new t4 (OutputSocket i (ByName ''Color''))
                                 (InputSocket k (ByName ''Color''))))))))"

fun aov_loop :: "scene \<Rightarrow> string \<Rightarrow> string option list \<Rightarrow> error option \<times> scene" where
  "aov_loop s style [] = (None, s)"
| "aov_loop s style (mat # rest) =
     (case aov_wire s style mat of
        (Some e, s1) \<Rightarrow> (Some e, s1)
      | (None, s1) \<Rightarrow> aov_loop s1 style rest)"

text \<open>
  \<^verbatim>\<open>make_aov_material_output_node(mat, obj, style)\<close>. The statement after the engine
  warning is the comparison \<^verbatim>\<open>engine == "CYCLES"\<close>, which changes nothing; the
  assertion on the style follows it.
\<close>

definition make_aov_material_output_node ::
  "scene \<Rightarrow> string option \<Rightarrow> object option \<Rightarrow> string \<Rightarrow> error option \<times> scene" where
  "make_aov_material_output_node s mat obj style =
     (let s0 = (if engine s \<noteq> ''CYCLES'' then s else s)
      in if style \<notin> set valid_styles
         then (Some (AssertionError
                 (''Invalid style '' @ style @ '' for AOV material output node, must be in '' @
                  ''['' @ [CHR 0x27] @ ''instance'' @ [CHR 0x27] @ '', '' @
                  [CHR 0x27] @ ''category'' @ [CHR 0x27] @ ''].'')), s0)
         else (case mat of
                 Some m \<Rightarrow> aov_loop s0 style [Some m]
               | None \<Rightarrow>
                   (case obj of
                      Some ob \<Rightarrow>
                        (case active_material ob of
                           None \<Rightarrow> (Some AttributeError, s0)
                         | Some None \<Rightarrow> (None, s0)
                         | Some (Some am) \<Rightarrow>
                             (if length (material_slots ob) > 1
                              then aov_loop s0 style (material_slots ob)
                              else aov_loop s0 style [Some am]))
                    | None \<Rightarrow> (Some (ValueError ''Must pass in an Object or Material''), s0))))"

section \<open>Example scenes\<close>

text \<open>
  A scene with two materials: \<open>red\<close> has a principled shader with roughness 1/2,
  metallic 1/4 and specular 1/2; \<open>matte\<close> has a node tree without such a node.
\<close>

definition bsdf_example :: node where
  "bsdf_example =
     \<lparr>node_name = ''Principled BSDF'', bl_idname = ''ShaderNodeBsdfPrincipled'', layer_name = [],
      inputs = [''Roughness'' \<mapsto> 1/2, ''Metallic'' \<mapsto> 1/4, ''Specular'' \<mapsto> 1/2],
      color_inputs = Map.empty\<rparr>"

definition scene_example :: scene where
  "scene_example =
     \<lparr>engine = ''CYCLES'',
      materials =
        [''red'' \<mapsto> \<lparr>use_nodes = True,
                      mat_node_tree = Some \<lparr>nodes = [(0, bsdf_example)], links = []\<rparr>\<rparr>,
         ''matte'' \<mapsto> \<lparr>use_nodes = True,
                        mat_node_tree = Some \<lparr>nodes = [], links = []\<rparr>\<rparr>],
      saved = []\<rparr>"

definition empty_scene :: scene where
  "empty_scene = \<lparr>engine = ''CYCLES'', materials = Map.empty, saved = []\<rparr>"

text \<open>
  A parent with two children, one of which has a child of its own; all four objects have a
  material slot.
\<close>

definition clan :: object where
  "clan =
     Object ''parent'' (Some None) []
       [Object ''left'' (Some None) []
          [Object ''grandchild'' (Some (Some ''matte'')) [] []],
        Object ''right'' (Some (Some ''matte'')) [] []]"

text \<open>
  The scene after a first and after a second call of \<^verbatim>\<open>jitter\<close> on \<open>red\<close>, starting
  from the empty registry of \<open>scene_example\<close>.
\<close>

definition after_first_jitter :: scene where
  "after_first_jitter = snd (jitter scene_example (MatRef ''red'') (1/5) True (1, 0, - 1))"

definition after_second_jitter :: scene where
  "after_second_jitter = snd (jitter after_first_jitter (MatRef ''red'') (1/5) True (0, 1, 1))"

text \<open>Whether a string occurs in another as a contiguous substring.\<close>

fun starts_with :: "string \<Rightarrow> string \<Rightarrow> bool" where
  "starts_with s [] = True"
| "starts_with [] (c # p) = False"
| "starts_with (d # s) (c # p) = (d = c \<and> starts_with s p)"

fun contains :: "string \<Rightarrow> string \<Rightarrow> bool" where
  "contains [] sub = starts_with [] sub"
| "contains (c # s) sub = (starts_with (c # s) sub \<or> contains s sub)"




section \<open>Properties\<close>

subsection \<open>Auxiliary facts\<close>

lemmas store_defs =
  restore_material_props_def set_mat_props_def add_default_value_def put_node_def
  save_material_props_def name_attr_def get_mat_props_def verify_def tree_of_def deref_def
  materials_get_def

lemmas ctor_defs =
  make_mat_from_color_def materials_get_def materials_new_def deref_def enable_nodes_def
  default_tree_def new_node_def unique_name_def default_label_def default_inputs_def
  default_color_inputs_def tree_of_def nodes_remove_def nodes_new_def fresh_id_def
  update_node_def put_tree_def links_new_def numbered_def

lemma nodes_get_name: "nodes_get ns n = Some (i, nd) \<Longrightarrow> node_name nd = n"
  by (induction ns) (auto split: if_splits)

lemma nodes_get_put:
  "nodes_get ns n = Some (i, nd) \<Longrightarrow> node_name nd' = n \<Longrightarrow>
   nodes_get (map (\<lambda>(j, x). if j = i then (j, nd') else (j, x)) ns) n = Some (i, nd')"
  by (induction ns) (auto split: if_splits)

text \<open>
  What \<^verbatim>\<open>set_mat_props\<close> does on a material with a principled shader: each of the three
  values is increased by the corresponding component of the tuple.
\<close>

lemma set_mat_props_adds:
  assumes m: "materials s m = Some mt" and t: "mat_node_tree mt = Some t"
    and b: "nodes_get (nodes t) ''Principled BSDF'' = Some (i, nd)"
    and r: "inputs nd ''Roughness'' = Some r" and me: "inputs nd ''Metallic'' = Some me"
    and sp: "inputs nd ''Specular'' = Some sp"
  shows "\<exists>s'. set_mat_props s (MatRef m) (a, b, c) = (None, s') \<and>
           get_mat_props s' (MatRef m) = Inr (r + a, me + b, sp + c)"
proof -
  let ?nd = "nd\<lparr>inputs := (inputs nd)(''Roughness'' \<mapsto> r + a, ''Metallic'' \<mapsto> me + b,
                                         ''Specular'' \<mapsto> sp + c)\<rparr>"
  have nm: "node_name nd = ''Principled BSDF''"
    using b by (rule nodes_get_name)
  have 1: "set_mat_props s (MatRef m) (a, b, c) = (None, put_node s m i ?nd)"
    using assms
    by (simp add: set_mat_props_def verify_def tree_of_def deref_def add_default_value_def)
  have 2: "nodes_get (map (\<lambda>(j, x). if j = i then (j, ?nd) else (j, x)) (nodes t))
             ''Principled BSDF'' = Some (i, ?nd)"
    using nodes_get_put [OF b, of ?nd] nm by simp
  have 3: "get_mat_props (put_node s m i ?nd) (MatRef m) = Inr (r + a, me + b, sp + c)"
    using m t 2 by (simp add: get_mat_props_def verify_def tree_of_def deref_def put_node_def)
  show ?thesis using 1 3 by simp
qed

lemma put_node_saved [simp]: "saved (put_node s m i nd) = saved s"
  by (simp add: put_node_def split: option.splits)

lemma set_mat_props_saved: "saved (snd (set_mat_props s mat p)) = saved s"
  by (simp add: set_mat_props_def split: sum.splits option.splits prod.splits)

lemma restore_saved: "saved (snd (restore_material_props s mat)) = saved s"
  by (simp add: restore_material_props_def set_mat_props_saved split: sum.splits option.splits)

lemma restore_items_saved: "saved (snd (restore_items s xs)) = saved s"
proof (induction xs arbitrary: s)
  case Nil
  then show ?case by simp
next
  case (Cons x xs)
  obtain n p where x: "x = (n, p)" by (cases x)
  obtain r s1 where r: "set_mat_props s (MatName n) p = (r, s1)"
    by (cases "set_mat_props s (MatName n) p")
  have s1: "saved s1 = saved s"
    using set_mat_props_saved [of s "MatName n" p] r by simp
  show ?case using Cons.IH [of s1] x r s1 by (cases r) simp_all
qed

lemma save_saved:
  "saved (snd (save_material_props s (MatRef m))) = saved s \<or>
   (\<exists>p. saved (snd (save_material_props s (MatRef m))) = AList.update m p (saved s))"
  by (auto simp: save_material_props_def name_attr_def split: sum.splits)

lemma save_distinct:
  "distinct (map fst (saved s)) \<Longrightarrow> distinct (map fst (saved (snd (save_material_props s mat))))"
  by (auto simp: save_material_props_def distinct_update split: sum.splits)

text \<open>
  The registry after \<^verbatim>\<open>jitter\<close>: unchanged, or extended by one entry under a name that
  had none.
\<close>

lemma jitter_saved_cases:
  "saved (snd (jitter s mat std sft z)) = saved s \<or>
   (\<exists>m p. map_of (saved s) m = None \<and>
          saved (snd (jitter s mat std sft z)) = AList.update m p (saved s))"
proof (cases "verify s mat True")
  case (Inl e)
  then show ?thesis by (simp add: jitter_def)
next
  case (Inr mo)
  show ?thesis
  proof (cases mo)
    case None
    then show ?thesis using Inr by (simp add: jitter_def)
  next
    case (Some m)
    define pre where
      "pre = (if sft
              then (case name_attr s (MatRef m) of
                      Inl e \<Rightarrow> (Some e, s)
                    | Inr n \<Rightarrow>
                        (if map_of (saved s) n = None
                         then save_material_props s (MatRef m)
                         else restore_material_props s (MatRef m)))
              else (None, s))"
    have nm: "\<And>n. name_attr s (MatRef m) = Inr n \<Longrightarrow> n = m"
      by (auto simp: name_attr_def split: sum.splits)
    have pre: "saved (snd pre) = saved s \<or>
      (\<exists>p. map_of (saved s) m = None \<and> saved (snd pre) = AList.update m p (saved s))"
      unfolding pre_def using save_saved [of s m] restore_saved [of s "MatRef m"] nm
      by (auto split: sum.splits)
    have unf: "jitter s mat std sft z =
      (case pre of
         (Some e, s1) \<Rightarrow> (Some e, s1)
       | (None, s1) \<Rightarrow>
           (case name_attr s1 (MatRef m) of
              Inl e \<Rightarrow> (Some e, s1)
            | Inr _ \<Rightarrow>
                (case get_mat_props s1 (MatRef m) of
                   Inl e \<Rightarrow> (Some e, s1)
                 | Inr (p0, p1, p2) \<Rightarrow>
                     set_mat_props s1 (MatRef m)
                       (p0 + gauss 0 std (fst z),
                        p1 + gauss 0 std (fst (snd z)),
                        p2 + gauss 0 std (snd (snd z))))))"
      using Inr Some by (simp add: jitter_def pre_def)
    have post: "saved (snd (jitter s mat std sft z)) = saved (snd pre)"
      unfolding unf
      by (cases pre) (auto simp: set_mat_props_saved split: option.splits sum.splits)
    show ?thesis using pre post by auto
  qed
qed

lemma jitter_keeps_entries:
  assumes "map_of (saved s) k = Some v"
  shows "map_of (saved (snd (jitter s mat std sft z))) k = Some v"
  using jitter_saved_cases [of s mat std sft z] assms
  by (auto simp: update_conv')

lemma jitter_distinct:
  assumes "distinct (map fst (saved s))"
  shows "distinct (map fst (saved (snd (jitter s mat std sft z))))"
  using jitter_saved_cases [of s mat std sft z] assms
  by (auto simp: distinct_update)

lemma jitter_creates_entry:
  assumes "mat = MatRef m \<or> mat = MatName m" "materials s m = Some mt"
    "map_of (saved s) m = None" "get_mat_props s (MatRef m) = Inr p"
  shows "map_of (saved (snd (jitter s mat std True z))) m = Some p"
proof -
  have v: "verify s mat True = Inr (Some m)"
    using assms by (auto simp: verify_def materials_get_def)
  have nm: "name_attr s (MatRef m) = Inr m"
    using assms by (simp add: name_attr_def deref_def)
  let ?s1 = "s\<lparr>saved := AList.update m p (saved s)\<rparr>"
  have sv: "save_material_props s (MatRef m) = (None, ?s1)"
    using nm assms by (simp add: save_material_props_def)
  have "saved (snd (jitter s mat std True z)) = saved ?s1"
    using v nm sv assms(3) unfolding jitter_def
    by (auto simp: set_mat_props_saved split: prod.splits option.splits sum.splits)
  then show ?thesis by (simp add: update_conv')
qed

lemma no_bsdf_jitter:
  assumes "materials s m = Some mt" "mat_node_tree mt = Some t"
    "nodes_get (nodes t) ''Principled BSDF'' = None" "mat = MatRef m \<or> mat = MatName m"
  shows "\<exists>s'. jitter s mat std sft z = (None, s') \<and> materials s' = materials s \<and>
           engine s' = engine s"
proof -
  have v: "verify s mat True = Inr (Some m)"
    using assms by (auto simp: verify_def materials_get_def)
  have nm: "\<And>s1. materials s1 = materials s \<Longrightarrow> name_attr s1 (MatRef m) = Inr m"
    using assms by (simp add: name_attr_def deref_def)
  have g: "\<And>s1. materials s1 = materials s \<Longrightarrow> get_mat_props s1 (MatRef m) = Inr (0, 0, 0)"
    using assms by (simp add: store_defs)
  have st: "\<And>s1 p. materials s1 = materials s \<Longrightarrow> set_mat_props s1 (MatRef m) p = (None, s1)"
    using assms by (simp add: store_defs)
  have sv: "save_material_props s (MatRef m) =
              (None, s\<lparr>saved := AList.update m (0, 0, 0) (saved s)\<rparr>)"
    using nm [of s] g [of s] by (simp add: save_material_props_def)
  have rs: "map_of (saved s) m \<noteq> None \<Longrightarrow> restore_material_props s (MatRef m) = (None, s)"
    using nm [of s] st [of s] by (auto simp: restore_material_props_def)
  show ?thesis
  proof (cases "sft \<and> map_of (saved s) m = None")
    case True
    let ?s1 = "s\<lparr>saved := AList.update m (0, 0, 0) (saved s)\<rparr>"
    have "jitter s mat std sft z = (None, ?s1)"
      using True v nm [of s] sv nm [of ?s1] g [of ?s1] st [of ?s1]
      by (simp add: jitter_def)
    then show ?thesis by simp
  next
    case False
    have "jitter s mat std sft z = (None, s)"
      using False v nm [of s] rs g [of s] st [of s]
      by (auto simp add: jitter_def)
    then show ?thesis by simp
  qed
qed




text \<open>
  The recursive call \<^verbatim>\<open>set_mat(child, mat)\<close> of the source, on a direct reference to the
  child and the resolved material, is \<open>set_mat_resolved\<close> on the child.
\<close>

lemma set_mat_on_references:
  "materials s m \<noteq> None \<Longrightarrow>
   set_mat objs s (ObjRef c) (MatRef m) True = Inr (set_mat_resolved m True c)"
  by (cases c)
     (auto simp: set_mat_def objects_verify_def verify_def name_attr_def deref_def
           split: option.splits)



text \<open>The result of the recursive assignment on the example hierarchy.\<close>

lemma set_mat_clan_value:
  "set_mat Map.empty scene_example (ObjRef clan) (MatName ''red'') True =
     Inr (Object ''parent'' (Some (Some ''red'')) []
       [Object ''left'' (Some (Some ''red'')) []
          [Object ''grandchild'' (Some (Some ''red'')) [] []],
        Object ''right'' (Some (Some ''red'')) [] []])"
  by (simp add: set_mat_def objects_verify_def verify_def materials_get_def name_attr_def deref_def clan_def scene_example_def)

text \<open>The message of \<^verbatim>\<open>verify\<close> is the same for every name that is not found.\<close>

lemma verify_missing:
  "materials s n = None \<Longrightarrow>
   verify s (MatName n) True = Inl (ValueError ''Could not find material None.'')"
  by (simp add: verify_def materials_get_def fmt_mat_def)

text \<open>
  \<^verbatim>\<open>make_mat_from_color\<close> on an existing material whose tree has no principled shader
  raises at \<^verbatim>\<open>nodes.remove\<close>.
\<close>

lemma make_mat_from_color_without_principled:
  assumes "materials s n = Some mt" and "mat_node_tree mt = Some t"
    and "nodes_get (nodes t) ''Principled BSDF'' = None"
  shows "fst (make_mat_from_color str s color (Some n)) = Inl TypeError"
  using assms
  by (simp add: make_mat_from_color_def materials_get_def deref_def enable_nodes_def tree_of_def
        nodes_remove_def)

subsection \<open>The snapshot store\<close>

text \<open>
  C1. The claim: \<^verbatim>\<open>restore_material_props\<close> writes the three stored values back
  verbatim, so that afterwards the material's roughness, metallic and specular equal the
  snapshot. The code goes through \<^verbatim>\<open>set_mat_props\<close>, whose assignments are
  \<^verbatim>\<open>+=\<close>: on the material \<open>red\<close> with values (1/2, 1/4, 1/2) and the snapshot
  (1/4, 1/2, 1/8) the call returns normally and leaves (3/4, 3/4, 5/8), the sum of the
  two, not the snapshot.
\<close>

theorem restore_adds_snapshot_to_current:
  "fst (restore_material_props (scene_example\<lparr>saved := [(''red'', (1/4, 1/2, 1/8))]\<rparr>)
          (MatRef ''red'')) = None \<and>
   get_mat_props
     (snd (restore_material_props (scene_example\<lparr>saved := [(''red'', (1/4, 1/2, 1/8))]\<rparr>)
             (MatRef ''red'')))
     (MatRef ''red'') = Inr (3/4, 3/4, 5/8)"
  by (simp add: store_defs scene_example_def bsdf_example_def)

text \<open>
  C2. The claim: \<^verbatim>\<open>save_material_props(M)\<close> followed by
  \<^verbatim>\<open>restore_material_props(M)\<close> leaves the three tracked values of \<open>M\<close> unchanged.
  On the code the pair doubles them: \<open>red\<close> starts at (1/2, 1/4, 1/2) and ends at
  (1, 1/2, 1).
\<close>

theorem save_then_restore_doubles:
  "get_mat_props scene_example (MatRef ''red'') = Inr (1/2, 1/4, 1/2) \<and>
   fst (restore_material_props (snd (save_material_props scene_example (MatRef ''red'')))
          (MatRef ''red'')) = None \<and>
   get_mat_props
     (snd (restore_material_props (snd (save_material_props scene_example (MatRef ''red'')))
             (MatRef ''red'')))
     (MatRef ''red'') = Inr (1, 1/2, 1)"
  by (simp add: store_defs scene_example_def bsdf_example_def)

text \<open>
  C3. The claim: with no registry entry for \<open>M\<close>, two calls of
  \<^verbatim>\<open>jitter(M, std=0, save_first_time=True)\<close> in a row leave the three values at the
  original baseline. On the code, whatever deviates are drawn, both calls return normally
  and \<open>red\<close> goes from (1/2, 1/4, 1/2) to (3, 3/2, 3): the first call doubles the values,
  the second adds the snapshot and doubles again.
\<close>

theorem jitter_zero_std_twice_drifts:
  "fst (jitter scene_example (MatRef ''red'') 0 True z1) = None \<and>
   fst (jitter (snd (jitter scene_example (MatRef ''red'') 0 True z1)) (MatRef ''red'') 0 True z2)
     = None \<and>
   get_mat_props
     (snd (jitter (snd (jitter scene_example (MatRef ''red'') 0 True z1)) (MatRef ''red'') 0
             True z2))
     (MatRef ''red'') = Inr (3, 3/2, 3)"
  by (simp add: jitter_def gauss_def store_defs scene_example_def bsdf_example_def)

subsection \<open>Constructors and lookup\<close>

text \<open>
  C4. The claim: \<^verbatim>\<open>make_mat_from_color\<close> called twice with the same name succeeds both
  times and returns the same material, the second call mutating the existing one. On the
  code the first call on an empty scene returns the material \<open>red\<close>; the second finds it
  by name, but the principled shader was removed by the first call, so
  \<^verbatim>\<open>nodes.get('Principled BSDF')\<close> is \<^verbatim>\<open>None\<close> and \<^verbatim>\<open>nodes.remove(None)\<close> raises.
\<close>

theorem make_mat_from_color_second_call_raises:
  "fst (make_mat_from_color str empty_scene (1, 0, 0) (Some ''red'')) = Inr ''red'' \<and>
   fst (make_mat_from_color str
          (snd (make_mat_from_color str empty_scene (1, 0, 0) (Some ''red'')))
          (1, 0, 0) (Some ''red'')) = Inl TypeError"
  by (simp add: ctor_defs empty_scene_def Let_def)

text \<open>
  C5. The claim: for a name that matches no material, \<^verbatim>\<open>verify(name)\<close> raises a value
  error whose message contains the name. The code raises the value error, but formats the
  message from the variable it has just rebound to the result of the lookup: the message
  is the same for every missing name and does not contain \<open>blue\<close>.
\<close>

theorem verify_message_lacks_name:
  "verify scene_example (MatName ''blue'') True =
     Inl (ValueError ''Could not find material None.'') \<and>
   \<not> contains ''Could not find material None.'' ''blue''"
  by (simp add: verify_def materials_get_def fmt_mat_def scene_example_def)

subsection \<open>AOV output wiring\<close>

text \<open>
  C6. For every style outside \<open>instance\<close> and \<open>category\<close>,
  \<^verbatim>\<open>make_aov_material_output_node\<close> raises an assertion error and the scene, with
  every material's node graph, is as it was before the call.
\<close>

theorem invalid_style_rejected_before_mutation:
  assumes "style \<notin> {''instance'', ''category''}"
  shows "\<exists>msg. make_aov_material_output_node s mat obj style = (Some (AssertionError msg), s)"
  using assms by (simp add: make_aov_material_output_node_def valid_styles_def)

theorem invalid_style_rejected_witness:
  "\<exists>msg. make_aov_material_output_node scene_example (Some ''red'') None ''bogus'' =
           (Some (AssertionError msg), scene_example)"
  using invalid_style_rejected_before_mutation
          [of "''bogus''" scene_example "Some ''red''" None]
  by simp

subsection \<open>Materials without a principled shader\<close>

text \<open>
  C7. For a material whose node tree has no node named \<open>Principled BSDF\<close>, given by
  reference or by name: \<^verbatim>\<open>get_mat_props\<close> returns the zero triple, \<^verbatim>\<open>set_mat_props\<close>
  returns without changing the scene, and \<^verbatim>\<open>jitter\<close> returns without raising and leaves
  every material, and so the node graph, unchanged.
\<close>

theorem jitter_inert_without_bsdf:
  assumes "materials s m = Some mt" and "mat_node_tree mt = Some t"
    and "nodes_get (nodes t) ''Principled BSDF'' = None"
    and "mat = MatRef m \<or> mat = MatName m"
  shows "get_mat_props s mat = Inr (0, 0, 0) \<and>
         set_mat_props s mat p = (None, s) \<and>
         (\<exists>s'. jitter s mat std save_first_time z = (None, s') \<and>
               materials s' = materials s \<and> engine s' = engine s)"
proof -
  have g: "get_mat_props s mat = Inr (0, 0, 0)"
    using assms by (auto simp: store_defs)
  have st: "set_mat_props s mat p = (None, s)"
    using assms by (auto simp: store_defs)
  show ?thesis
    using g st no_bsdf_jitter [OF assms] by simp
qed

theorem jitter_inert_without_bsdf_witness:
  "get_mat_props scene_example (MatName ''matte'') = Inr (0, 0, 0) \<and>
   set_mat_props scene_example (MatName ''matte'') (1, 1, 1) = (None, scene_example) \<and>
   (\<exists>s'. jitter scene_example (MatName ''matte'') (1/5) True (1, 0, - 1) = (None, s') \<and>
         materials s' = materials scene_example \<and> engine s' = engine scene_example)"
  using jitter_inert_without_bsdf
          [where s = scene_example and m = "''matte''" and mat = "MatName ''matte''"
             and mt = "\<lparr>use_nodes = True, mat_node_tree = Some \<lparr>nodes = [], links = []\<rparr>\<rparr>"
             and t = "\<lparr>nodes = [], links = []\<rparr>" and p = "(1, 1, 1)" and std = "1/5"
             and save_first_time = True and z = "(1, 0, - 1)"]
  by (simp add: scene_example_def)

subsection \<open>Material assignment\<close>



subsection \<open>The registry\<close>

text \<open>
  C9. The registry holds at most one snapshot per material name, and keeps doing so after
  \<^verbatim>\<open>save_material_props\<close> and \<^verbatim>\<open>jitter\<close>; an entry that exists is neither overwritten
  nor removed by \<^verbatim>\<open>jitter\<close>, \<^verbatim>\<open>restore_material_props\<close> or
  \<^verbatim>\<open>restore_all_material_props\<close> (the last two leave the whole registry as it is); and
  the first \<^verbatim>\<open>jitter\<close> with \<^verbatim>\<open>save_first_time=True\<close> on a material without an entry
  creates one, holding the values read at that moment, whatever else the registry holds,
  the empty registry of a fresh process included.
\<close>

theorem registry_entries_write_once:
  "(distinct (map fst (saved s)) \<longrightarrow>
      distinct (map fst (saved (snd (save_material_props s mat)))) \<and>
      distinct (map fst (saved (snd (jitter s mat std save_first_time z))))) \<and>
   (\<forall>k v. map_of (saved s) k = Some v \<longrightarrow>
      map_of (saved (snd (jitter s mat std save_first_time z))) k = Some v) \<and>
   saved (snd (restore_material_props s mat)) = saved s \<and>
   saved (snd (restore_all_material_props s)) = saved s \<and>
   (\<forall>n mt p. (mat = MatRef n \<or> mat = MatName n) \<and> materials s n = Some mt \<and>
             map_of (saved s) n = None \<and> get_mat_props s (MatRef n) = Inr p \<longrightarrow>
             map_of (saved (snd (jitter s mat std True z))) n = Some p)"
proof -
  have 1: "distinct (map fst (saved s)) \<longrightarrow>
      distinct (map fst (saved (snd (save_material_props s mat)))) \<and>
      distinct (map fst (saved (snd (jitter s mat std save_first_time z))))"
    using save_distinct jitter_distinct by blast
  have 2: "\<forall>k v. map_of (saved s) k = Some v \<longrightarrow>
      map_of (saved (snd (jitter s mat std save_first_time z))) k = Some v"
    using jitter_keeps_entries by blast
  have 3: "saved (snd (restore_all_material_props s)) = saved s"
    by (simp add: restore_all_material_props_def restore_items_saved)
  have 4: "\<forall>n mt p. (mat = MatRef n \<or> mat = MatName n) \<and> materials s n = Some mt \<and>
             map_of (saved s) n = None \<and> get_mat_props s (MatRef n) = Inr p \<longrightarrow>
             map_of (saved (snd (jitter s mat std True z))) n = Some p"
    using jitter_creates_entry by blast
  show ?thesis
    using 1 2 3 4 restore_saved [of s mat] by blast
qed

theorem registry_entries_write_once_witness:
  "saved scene_example = [] \<and>
   map_of (saved after_first_jitter) ''red'' = Some (1/2, 1/4, 1/2) \<and>
   map_of (saved after_second_jitter) ''red'' = Some (1/2, 1/4, 1/2) \<and>
   distinct (map fst (saved after_second_jitter)) \<and>
   saved (snd (restore_material_props after_second_jitter (MatRef ''red''))) =
     saved after_second_jitter \<and>
   saved (snd (restore_all_material_props after_second_jitter)) = saved after_second_jitter"
proof -
  have e: "saved scene_example = []" by (simp add: scene_example_def)
  have g: "get_mat_props scene_example (MatRef ''red'') = Inr (1/2, 1/4, 1/2)"
    by (simp add: store_defs scene_example_def bsdf_example_def)
  have m: "materials scene_example ''red'' =
             Some \<lparr>use_nodes = True,
                   mat_node_tree = Some \<lparr>nodes = [(0, bsdf_example)], links = []\<rparr>\<rparr>"
    by (simp add: scene_example_def)
  have n: "map_of (saved scene_example) ''red'' = None" using e by simp
  have d: "distinct (map fst (saved scene_example))" using e by simp
  note first =
    registry_entries_write_once
      [where s = scene_example and mat = "MatRef ''red''" and std = "1/5"
         and save_first_time = True and z = "(1, 0, - 1)"]
  have c1: "map_of (saved after_first_jitter) ''red'' = Some (1/2, 1/4, 1/2)"
    unfolding after_first_jitter_def using first g m n by blast
  have d1: "distinct (map fst (saved after_first_jitter))"
    unfolding after_first_jitter_def using first d by blast
  note second =
    registry_entries_write_once
      [where s = after_first_jitter and mat = "MatRef ''red''" and std = "1/5"
         and save_first_time = True and z = "(0, 1, 1)"]
  have c2: "map_of (saved after_second_jitter) ''red'' = Some (1/2, 1/4, 1/2)"
    unfolding after_second_jitter_def using second c1 by blast
  have d2: "distinct (map fst (saved after_second_jitter))"
    unfolding after_second_jitter_def using second d1 by blast
  note third =
    registry_entries_write_once
      [where s = after_second_jitter and mat = "MatRef ''red''" and std = 0
         and save_first_time = True and z = "(0, 0, 0)"]
  show ?thesis
    using e c1 c2 d2 third by blast
qed

text \<open>
  C10. \<^verbatim>\<open>save_material_props\<close> and \<^verbatim>\<open>restore_material_props\<close> do not resolve names:
  called with a name string they raise an attribute error and leave the scene, registry
  included, as it was, also when a material of that name exists, while \<^verbatim>\<open>verify\<close>, which
  the other operations call first, resolves the name of an existing material.
\<close>

theorem snapshot_functions_reject_name_strings:
  "save_material_props s (MatName n) = (Some AttributeError, s) \<and>
   restore_material_props s (MatName n) = (Some AttributeError, s) \<and>
   verify (s\<lparr>materials := (materials s)(n \<mapsto> mt)\<rparr>) (MatName n) True = Inr (Some n)"
  by (simp add: save_material_props_def restore_material_props_def name_attr_def verify_def
        materials_get_def)

end
